theory Spec2Isabelle
  imports Complex_Main
begin

section \<open>The control loop of the first-person RTS prototype (Docs/main.py)\<close>

text \<open>
  The class \<open>Game\<close> of \<open>Docs/main.py\<close> owns the game mode, the mouse capture and four
  collaborators: the player, the world, the user interface and the resource manager.
  Their classes live in the package \<open>game\<close>, which is not part of the sources at hand, so
  their methods are parameters of the model (the record \<open>collab\<close>); the attributes that
  \<open>Game\<close> reads from them are fields of the records below.
\<close>

subsection \<open>Input events\<close>

text \<open>The key constants of pygame that \<open>handle_events\<close> compares \<open>event.key\<close> with; every
  other key is \<open>K_OTHER n\<close>.\<close>

datatype key = K_ESCAPE | K_1 | K_2 | K_3 | K_SPACE | K_i | K_b | K_e | K_OTHER nat

text \<open>A pygame event: its type and the attributes the loop reads (\<open>event.key\<close>,
  \<open>event.button\<close>, \<open>event.rel\<close>).\<close>

datatype event =
    QUIT
  | KEYDOWN key
  | MOUSEBUTTONDOWN nat
  | MOUSEMOTION "int \<times> int"
  | OTHER_EVENT nat

subsection \<open>The objects the loop reads\<close>

text \<open>The coordinates of the player and of the buildings are Python numbers; the classes
  that decide their type (\<open>float\<close>, \<open>int\<close>, a numpy scalar) are not among the sources.
  A number has a real value or is an infinity or NaN. The arithmetic of that type rounds,
  overflows and raises as Python does: it is a parameter of the model (\<open>num_sub\<close>,
  \<open>num_add\<close> and \<open>num_pow\<close> below), and an exception that it raises is a value.\<close>

datatype pynum = Fin real | PInf | NInf | NaN

datatype error = OverflowError | TypeError | OtherError string

text \<open>Python's \<open><\<close> and \<open><=\<close> on two numbers: by value, and false where NaN takes part.\<close>

fun num_lt :: "pynum \<Rightarrow> pynum \<Rightarrow> bool" where
  "num_lt NaN b = False"
| "num_lt a NaN = False"
| "num_lt (Fin a) (Fin b) = (a < b)"
| "num_lt (Fin a) PInf = True"
| "num_lt (Fin a) NInf = False"
| "num_lt NInf NInf = False"
| "num_lt NInf b = True"
| "num_lt PInf b = False"

fun num_le :: "pynum \<Rightarrow> pynum \<Rightarrow> bool" where
  "num_le NaN b = False"
| "num_le a NaN = False"
| "num_le (Fin a) (Fin b) = (a \<le> b)"
| "num_le (Fin a) PInf = True"
| "num_le (Fin a) NInf = False"
| "num_le NInf b = True"
| "num_le PInf PInf = True"
| "num_le PInf b = False"

text \<open>The result of a piece of code that may raise: the state it leaves, and the
  exception if one was raised.\<close>

datatype 'a outcome = Normal 'a | Raised error 'a

fun state_of :: "'a outcome \<Rightarrow> 'a" where
  "state_of (Normal s) = s"
| "state_of (Raised e s) = s"

text \<open>A building or a resource of the world: the loop reads \<open>.x\<close>, \<open>.z\<close> and \<open>.type\<close> only.\<close>

record world_object =
  o_x :: pynum
  o_z :: pynum
  o_type :: string

text \<open>An entry of \<open>player.nearby_objects\<close>: a dictionary with the keys \<open>"type"\<close> and
  \<open>"object"\<close>.\<close>

record nearby_object =
  n_type :: string
  n_object :: world_object

record Player =
  p_x :: pynum
  p_z :: pynum
  nearby_objects :: "nearby_object list"

record World =
  buildings :: "world_object list"

record feedback_message =
  msg_text :: string
  feedback_type :: string
  remaining_lifetime :: real

record UI =
  building_menu_open :: bool
  building_mode :: bool
  ship_inventory_open :: bool
  building_interaction_open :: bool
  building_type_to_place :: "string option"
  selected_building_type :: "string option"
  cursor_pos :: "int \<times> int"
  feedback_messages :: "feedback_message list"

text \<open>The four collaborators together. They hold references to each other (the player
  to the world, the interface to the player and the resource manager), so a method of one
  may change another: every method acts on the whole of \<open>Sim\<close>. The field \<open>rest\<close> is the
  resource manager and every attribute of the others that the loop does not read.\<close>

record 'h Sim =
  player :: Player
  world :: World
  ui :: UI
  rest :: 'h

text \<open>The calls the loop makes to its collaborators, in program order.\<close>

datatype call =
    SWITCH_SHIP nat
  | TOGGLE_BUILDING_MENU
  | TOGGLE_SHIP_INVENTORY
  | TOGGLE_BUILDING_INTERACTION world_object
  | ADD_FEEDBACK_MESSAGE string string
  | INTERACT
  | HANDLE_MOUSE_CLICK "int \<times> int" nat
  | HANDLE_MOUSE_MOVEMENT "int \<times> int"
  | MOVE real
  | WORLD_UPDATE real
  | RESOURCE_MANAGER_UPDATE real
  | UPDATE_FEEDBACK_MESSAGES real

text \<open>The methods of the collaborators that the loop calls. \<open>interact\<close> and
  \<open>handle_mouse_click\<close> return the value the loop tests. \<open>feedback_lifetime\<close> is the
  constant lifetime that the interface gives a new feedback message. \<open>num_sub\<close>,
  \<open>num_add\<close> and \<open>num_pow\<close> are the operators \<open>-\<close>, \<open>+\<close> and \<open>**\<close> of the coordinates'
  number type; each returns a number or raises.\<close>

record 'h collab =
  switch_ship :: "nat \<Rightarrow> 'h Sim \<Rightarrow> 'h Sim"
  toggle_building_menu :: "'h Sim \<Rightarrow> 'h Sim"
  toggle_ship_inventory :: "'h Sim \<Rightarrow> 'h Sim"
  toggle_building_interaction :: "world_object \<Rightarrow> 'h Sim \<Rightarrow> 'h Sim"
  interact :: "'h Sim \<Rightarrow> bool \<times> 'h Sim"
  handle_mouse_click :: "int \<times> int \<Rightarrow> nat \<Rightarrow> 'h Sim \<Rightarrow> bool \<times> 'h Sim"
  handle_mouse_movement :: "int \<times> int \<Rightarrow> 'h Sim \<Rightarrow> 'h Sim"
  move :: "real \<Rightarrow> key list \<Rightarrow> 'h Sim \<Rightarrow> 'h Sim"
  world_update :: "real \<Rightarrow> 'h Sim \<Rightarrow> 'h Sim"
  resource_manager_update :: "real \<Rightarrow> 'h Sim \<Rightarrow> 'h Sim"
  update_feedback_messages :: "real \<Rightarrow> 'h Sim \<Rightarrow> 'h Sim"
  feedback_lifetime :: real
  num_sub :: "pynum \<Rightarrow> pynum \<Rightarrow> error + pynum"
  num_add :: "pynum \<Rightarrow> pynum \<Rightarrow> error + pynum"
  num_pow :: "pynum \<Rightarrow> pynum \<Rightarrow> error + pynum"

text \<open>The state of \<open>Game\<close>: its own attributes, the state of pygame's mouse
  (\<open>pygame.mouse.set_visible\<close>, \<open>pygame.event.set_grab\<close>), the collaborators, and the log
  of the calls made to them so far. The collaborators are built without a reference to
  the game, and the model lets them change neither the mode nor the state of the mouse.
  \<open>raised\<close> is the exception that has left the loop, if any.\<close>

record 'h Game =
  game_state :: string
  running :: bool
  mouse_visible :: bool
  event_grab :: bool
  dt :: real
  sim :: "'h Sim"
  calls :: "call list"
  raised :: "error option"

subsection \<open>String literals of the source\<close>

text \<open>The messages are German; one \<open>char\<close> stands for one code point of the Python
  string (all of them are below 256).\<close>

definition ae :: char where "ae = CHR 0xE4"
definition oe :: char where "oe = CHR 0xF6"
definition Oe :: char where "Oe = CHR 0xD6"

definition MARKT :: string where "MARKT = ''Markt''"
definition RAFFINERIE :: string where "RAFFINERIE = ''Raffinerie''"
definition OELPLATTFORM :: string where "OELPLATTFORM = Oe # ''lplattform''"
definition KOBALTANREICHERUNG :: string where "KOBALTANREICHERUNG = ''Kobaltanreicherung''"

text \<open>\<open>f"{v}"\<close> of an attribute that is a string or \<open>None\<close>.\<close>

definition format_opt :: "string option \<Rightarrow> string" where
  "format_opt v = (case v of None \<Rightarrow> ''None'' | Some s \<Rightarrow> s)"

subsection \<open>Calls to the collaborators\<close>

text \<open>Modelled from the spec: \<open>UI.add_feedback_message\<close> (game/ui.py is not among the
  sources). The feedback queue is an ordered sequence and a push appends the message
  with a fixed default lifetime; it changes nothing else.\<close>

definition add_feedback_message :: "'h collab \<Rightarrow> string \<Rightarrow> string \<Rightarrow> 'h Sim \<Rightarrow> 'h Sim" where
  "add_feedback_message c txt ftype s =
     s\<lparr>ui := (ui s)\<lparr>feedback_messages :=
          feedback_messages (ui s) @
            [\<lparr>msg_text = txt, feedback_type = ftype,
              remaining_lifetime = feedback_lifetime c\<rparr>]\<rparr>\<rparr>"

text \<open>\<open>self.ui.add_feedback_message(txt, feedback_type=ftype)\<close>\<close>

definition feedback :: "'h collab \<Rightarrow> string \<Rightarrow> string \<Rightarrow> 'h Game \<Rightarrow> 'h Game" where
  "feedback c txt ftype g =
     g\<lparr>sim := add_feedback_message c txt ftype (sim g),
       calls := calls g @ [ADD_FEEDBACK_MESSAGE txt ftype]\<rparr>"

text \<open>A call of a method that returns nothing the loop uses.\<close>

definition invoke :: "call \<Rightarrow> ('h Sim \<Rightarrow> 'h Sim) \<Rightarrow> 'h Game \<Rightarrow> 'h Game" where
  "invoke cl f g = g\<lparr>sim := f (sim g), calls := calls g @ [cl]\<rparr>"

subsection \<open>\<open>Game.__init__\<close>\<close>

text \<open>The constructor, given the collaborators it has built.\<close>

definition init :: "'h Sim \<Rightarrow> 'h Game" where
  "init s0 = \<lparr>game_state = ''playing'', running = True, mouse_visible = False,
              event_grab = True, dt = 0, sim = s0, calls = [], raised = None\<rparr>"

subsection \<open>\<open>Game.handle_events\<close>\<close>

text \<open>Lines 87 and 88: the distance \<open>((px - bx) ** 2 + (pz - bz) ** 2) ** 0.5\<close>, in
  Python's order of evaluation; the first exception ends the computation.\<close>

definition distance :: "'h collab \<Rightarrow> Player \<Rightarrow> world_object \<Rightarrow> error + pynum" where
  "distance c p building =
     (case num_sub c (p_x p) (o_x building) of Inl e \<Rightarrow> Inl e | Inr dx \<Rightarrow>
      case num_pow c dx (Fin 2) of Inl e \<Rightarrow> Inl e | Inr dx2 \<Rightarrow>
      case num_sub c (p_z p) (o_z building) of Inl e \<Rightarrow> Inl e | Inr dz \<Rightarrow>
      case num_pow c dz (Fin 2) of Inl e \<Rightarrow> Inl e | Inr dz2 \<Rightarrow>
      case num_add c dx2 dz2 of Inl e \<Rightarrow> Inl e | Inr sq_sum \<Rightarrow>
      num_pow c sq_sum (Fin (1 / 2)))"

text \<open>Lines 86 to 92: the loop over the buildings, from the values of \<open>nearest_building\<close>
  and \<open>min_distance\<close> so far. An exception of the arithmetic leaves the loop.\<close>

fun scan ::
  "'h collab \<Rightarrow> Player \<Rightarrow> world_object list \<Rightarrow> world_object option \<times> pynum \<Rightarrow>
     error + world_object option \<times> pynum" where
  "scan c p [] acc = Inr acc"
| "scan c p (building # bs) acc =
     (case distance c p building of
        Inl e \<Rightarrow> Inl e
      | Inr d \<Rightarrow>
          scan c p bs
            (if num_lt d (snd acc) \<and> num_lt d (Fin 50) then (Some building, d) else acc))"

text \<open>Lines 83 to 92: the scan starts with \<open>None\<close> and \<open>float('inf')\<close>. The test
  \<open>if nearest_building\<close> of line 94 holds for every building object and fails for
  \<open>None\<close>.\<close>

definition nearest_building ::
  "'h collab \<Rightarrow> Player \<Rightarrow> world_object list \<Rightarrow> error + world_object option" where
  "nearest_building c p bs =
     (case scan c p bs (None, PInf) of Inl e \<Rightarrow> Inl e | Inr acc \<Rightarrow> Inr (fst acc))"

text \<open>Lines 104 to 139: the feedback after \<open>player.interact()\<close> has returned
  \<open>interact_result\<close>.\<close>

definition interact_feedback :: "'h collab \<Rightarrow> bool \<Rightarrow> 'h Game \<Rightarrow> 'h Game" where
  "interact_feedback c interact_result g =
     (case nearby_objects (player (sim g)) of
        [] \<Rightarrow> feedback c (''Nichts in der N'' @ ae # ''he!'') ''info'' g
      | obj # _ \<Rightarrow>
          if interact_result then
            if n_type obj = ''resource'' then g
            else if n_type obj = ''building'' then
              let building_type = o_type (n_object obj) in
              if building_type = MARKT then feedback c ''Ressourcen verkauft!'' ''success'' g
              else if building_type = RAFFINERIE then
                feedback c (Oe # ''l zu Kraftstoff verarbeitet!'') ''success'' g
              else if building_type = OELPLATTFORM then
                feedback c (Oe # ''l abgeholt!'') ''success'' g
              else if building_type = KOBALTANREICHERUNG then
                feedback c ''Kobalt verarbeitet!'' ''success'' g
              else feedback c (''Mit '' @ building_type @ '' interagiert!'') ''success'' g
            else g
          else
            if n_type obj = ''resource'' then
              let resource_type = o_type (n_object obj) in
              feedback c (''Ben'' @ oe # ''tige Geb'' @ ae # ''ude f'' @ CHR 0xFC # ''r ''
                          @ resource_type @ ''!'') ''error'' g
            else if n_type obj = ''building'' then
              let building_type = o_type (n_object obj) in
              if building_type = MARKT then
                feedback c ''Keine Ressourcen zum Verkaufen!'' ''warning'' g
              else if building_type = RAFFINERIE then
                feedback c (''Ben'' @ oe # ''tige '' @ Oe # ''l im Frachtraum!'') ''warning'' g
              else if building_type = OELPLATTFORM then
                feedback c ''Frachtraum voll!'' ''warning'' g
              else if building_type = KOBALTANREICHERUNG then
                feedback c (''Ben'' @ oe # ''tige Kobalt im Frachtraum!'') ''warning'' g
              else feedback c (''Interaktion nicht m'' @ oe # ''glich!'') ''error'' g
            else g)"

text \<open>Lines 64 to 139: the keys handled while the game is running.\<close>

definition handle_playing_key :: "'h collab \<Rightarrow> key \<Rightarrow> 'h Game \<Rightarrow> 'h Game outcome" where
  "handle_playing_key c k g =
     (if k = K_1 then Normal (invoke (SWITCH_SHIP 0) (switch_ship c 0) g)
      else if k = K_2 then Normal (invoke (SWITCH_SHIP 1) (switch_ship c 1) g)
      else if k = K_3 then Normal (invoke (SWITCH_SHIP 2) (switch_ship c 2) g)
      else if k = K_SPACE then Normal (invoke TOGGLE_BUILDING_MENU (toggle_building_menu c) g)
      else if k = K_i then Normal (invoke TOGGLE_SHIP_INVENTORY (toggle_ship_inventory c) g)
      else if k = K_b then
        (case nearest_building c (player (sim g)) (buildings (world (sim g))) of
           Inl e \<Rightarrow> Raised e g
         | Inr (Some b) \<Rightarrow>
             Normal (invoke (TOGGLE_BUILDING_INTERACTION b) (toggle_building_interaction c b) g)
         | Inr None \<Rightarrow>
             Normal (feedback c (''Kein Geb'' @ ae # ''ude in der N'' @ ae # ''he'')
                       ''warning'' g))
      else if k = K_e then
        (let (interact_result, s1) = interact c (sim g)
         in Normal (interact_feedback c interact_result
                      (g\<lparr>sim := s1, calls := calls g @ [INTERACT]\<rparr>)))
      else Normal g)"

text \<open>Lines 52 to 139: a key has been pressed.\<close>

definition handle_keydown :: "'h collab \<Rightarrow> key \<Rightarrow> 'h Game \<Rightarrow> 'h Game outcome" where
  "handle_keydown c k g =
     (let g1 = (if k = K_ESCAPE then
                  if game_state g = ''playing''
                  then g\<lparr>game_state := ''paused'', mouse_visible := True, event_grab := False\<rparr>
                  else g\<lparr>game_state := ''playing'', mouse_visible := False, event_grab := True\<rparr>
                else g)
      in if game_state g1 = ''playing'' then handle_playing_key c k g1 else Normal g1)"

text \<open>Lines 142 to 160: a mouse button has been pressed.\<close>

definition handle_mousebuttondown ::
  "'h collab \<Rightarrow> int \<times> int \<Rightarrow> nat \<Rightarrow> 'h Game \<Rightarrow> 'h Game" where
  "handle_mousebuttondown c pos button g =
     (if game_state g = ''playing'' \<and>
         (building_menu_open (ui (sim g)) \<or> building_mode (ui (sim g)) \<or>
          ship_inventory_open (ui (sim g)) \<or> building_interaction_open (ui (sim g)))
      then
        (let (clicked_result, s1) = handle_mouse_click c pos button (sim g);
             g1 = g\<lparr>sim := s1, calls := calls g @ [HANDLE_MOUSE_CLICK pos button]\<rparr>
         in if clicked_result \<and> building_mode (ui (sim g1)) then
              if \<not> building_mode (ui (sim g1)) \<and> building_type_to_place (ui (sim g1)) = None
              then
                (let g2 = feedback c (format_opt (selected_building_type (ui (sim g1)))
                                     @ '' platziert!'') ''success'' g1
                 in g2\<lparr>sim := (sim g2)\<lparr>ui := (ui (sim g2))\<lparr>selected_building_type := None\<rparr>\<rparr>\<rparr>)
              else if \<not> clicked_result then
                feedback c (''Geb'' @ ae # ''ude kann hier nicht platziert werden'') ''error'' g1
              else g1
            else g1)
      else g)"

text \<open>Lines 48 to 164: the branches of the loop body for one event.\<close>

definition dispatch :: "'h collab \<Rightarrow> event \<Rightarrow> int \<times> int \<Rightarrow> 'h Game \<Rightarrow> 'h Game outcome" where
  "dispatch c ev mouse_pos g =
     (case ev of
        QUIT \<Rightarrow> Normal (g\<lparr>running := False\<rparr>)
      | KEYDOWN k \<Rightarrow> handle_keydown c k g
      | MOUSEBUTTONDOWN button \<Rightarrow> Normal (handle_mousebuttondown c mouse_pos button g)
      | MOUSEMOTION rel \<Rightarrow>
          if game_state g = ''playing'' \<and>
             \<not> (building_menu_open (ui (sim g)) \<or> ship_inventory_open (ui (sim g)) \<or>
                building_interaction_open (ui (sim g)))
          then Normal (invoke (HANDLE_MOUSE_MOVEMENT rel) (handle_mouse_movement c rel) g)
          else Normal g
      | OTHER_EVENT n \<Rightarrow> Normal g)"

text \<open>Lines 48 to 167: the body of the loop over the events, for one event.
  \<open>mouse_pos\<close> is what \<open>pygame.mouse.get_pos()\<close> returns while this event is handled. When
  a branch raises, line 167 is not reached and the exception leaves the loop. The body
  is the same whatever \<open>raised\<close> holds on entry; the loops below stop once it is set.\<close>

definition handle_event :: "'h collab \<Rightarrow> event \<Rightarrow> int \<times> int \<Rightarrow> 'h Game \<Rightarrow> 'h Game" where
  "handle_event c ev mouse_pos g =
     (case dispatch c ev mouse_pos g of
        Normal g1 \<Rightarrow> g1\<lparr>sim := (sim g1)\<lparr>ui := (ui (sim g1))\<lparr>cursor_pos := mouse_pos\<rparr>\<rparr>\<rparr>
      | Raised e g1 \<Rightarrow> g1\<lparr>raised := Some e\<rparr>)"

text \<open>\<open>for event in pygame.event.get()\<close>: the events of one frame, each with the mouse
  position read while it is handled. An exception ends the loop.\<close>

fun handle_events :: "'h collab \<Rightarrow> (event \<times> (int \<times> int)) list \<Rightarrow> 'h Game \<Rightarrow> 'h Game" where
  "handle_events c [] g = g"
| "handle_events c ((ev, mouse_pos) # evs) g =
     (let g1 = handle_event c ev mouse_pos g
      in if raised g1 = None then handle_events c evs g1 else g1)"

subsection \<open>\<open>Game.update\<close>\<close>

text \<open>\<open>ms\<close> is what \<open>self.clock.tick(60)\<close> returns (milliseconds), \<open>keys\<close> what
  \<open>pygame.key.get_pressed()\<close> returns (the keys held down).\<close>

definition update :: "'h collab \<Rightarrow> int \<Rightarrow> key list \<Rightarrow> 'h Game \<Rightarrow> 'h Game" where
  "update c ms keys g =
     (let g1 = g\<lparr>dt := real_of_int ms / 1000\<rparr>
      in if game_state g1 = ''playing'' then
           (let g2 = invoke (MOVE (dt g1)) (move c (dt g1) keys) g1;
                g3 = invoke (WORLD_UPDATE (dt g1)) (world_update c (dt g1)) g2;
                g4 = invoke (RESOURCE_MANAGER_UPDATE (dt g1)) (resource_manager_update c (dt g1)) g3
            in invoke (UPDATE_FEEDBACK_MESSAGES (dt g1)) (update_feedback_messages c (dt g1)) g4)
         else g1)"

subsection \<open>\<open>Game.run\<close>\<close>

text \<open>One turn of the loop of \<open>run\<close>: the events of the frame, then the update, unless
  an exception has left \<open>handle_events\<close>. Rendering draws the state and is left out.\<close>

record frame_input =
  frame_events :: "(event \<times> (int \<times> int)) list"
  frame_ms :: int
  frame_keys :: "key list"

definition frame :: "'h collab \<Rightarrow> frame_input \<Rightarrow> 'h Game \<Rightarrow> 'h Game" where
  "frame c inp g =
     (let g1 = handle_events c (frame_events inp) g
      in if raised g1 = None then update c (frame_ms inp) (frame_keys inp) g1 else g1)"

text \<open>The loop runs while \<open>self.running\<close> holds and no exception has ended the program;
  \<open>inps\<close> are the inputs of the frames to come.\<close>

fun run :: "'h collab \<Rightarrow> frame_input list \<Rightarrow> 'h Game \<Rightarrow> 'h Game" where
  "run c [] g = g"
| "run c (inp # inps) g =
     (if running g then
        (let g1 = frame c inp g in if raised g1 = None then run c inps g1 else g1)
      else g)"

text \<open>The calls made between two states of the game.\<close>

definition new_calls :: "'h Game \<Rightarrow> 'h Game \<Rightarrow> call list" where
  "new_calls g g' = drop (length (calls g)) (calls g')"

subsection \<open>Collaborators for concrete runs\<close>

text \<open>Modelled from the spec: the methods of \<open>Player\<close>, \<open>World\<close>, \<open>UI\<close> and
  \<open>ResourceManager\<close> (package \<open>game\<close>, not among the sources), used to run the loop on
  concrete inputs. The menu keys flip their panel flag; the nearby-building menu opens the
  interaction panel; \<open>interact\<close> returns the success flag \<open>interact_ok\<close>; a click in
  placement mode places the building where the world accepts the position
  (\<open>placement_valid\<close>: both placement flags are cleared and the click is reported as
  handled) and otherwise leaves the placement mode as it is and reports \<open>False\<close>; a new
  feedback message lives 3 seconds.

  The coordinates of the concrete games are Python ints, and the arithmetic is that of
  \<open>int\<close> (\<open>int_sub\<close>, \<open>int_add\<close>, \<open>int_pow\<close>): differences, sums and squares are exact
  and never overflow. The power 0.5 converts its operand to a float, which raises
  OverflowError from \<open>2 ^ 1024 - 2 ^ 970\<close> on; a negative operand gives a complex number,
  which the comparison of line 90 rejects with TypeError; otherwise the result is given
  by the exact root. That is the float that Python returns for a perfect square below
  \<open>2 ^ 53\<close>; for another operand Python returns a float next to the root, which compares
  with 50 and with the roots of the other sums below 2500 as the exact root does. A value
  that is not an integer is not an \<open>int\<close>: the arithmetic given here raises TypeError for
  it, and for an exponent that the loop does not use. A game with \<open>float\<close> coordinates
  has the arithmetic of \<open>float\<close> in these three fields instead; the general statements
  below hold for every arithmetic.\<close>

definition int_sub :: "pynum \<Rightarrow> pynum \<Rightarrow> error + pynum" where
  "int_sub a b =
     (case (a, b) of
        (Fin x, Fin y) \<Rightarrow> if x \<in> \<int> \<and> y \<in> \<int> then Inr (Fin (x - y)) else Inl TypeError
      | _ \<Rightarrow> Inl TypeError)"

definition int_add :: "pynum \<Rightarrow> pynum \<Rightarrow> error + pynum" where
  "int_add a b =
     (case (a, b) of
        (Fin x, Fin y) \<Rightarrow> if x \<in> \<int> \<and> y \<in> \<int> then Inr (Fin (x + y)) else Inl TypeError
      | _ \<Rightarrow> Inl TypeError)"

definition int_pow :: "pynum \<Rightarrow> pynum \<Rightarrow> error + pynum" where
  "int_pow a e =
     (case a of
        Fin x \<Rightarrow>
          if x \<notin> \<int> then Inl TypeError
          else if e = Fin 2 then Inr (Fin (x\<^sup>2))
          else if e = Fin (1 / 2) then
            if x < 0 then Inl TypeError
            else if 2 ^ 1024 - 2 ^ 970 \<le> x then Inl OverflowError
            else Inr (Fin (sqrt x))
          else Inl TypeError
      | _ \<Rightarrow> Inl TypeError)"

definition spec_collab :: "bool \<Rightarrow> bool \<Rightarrow> unit collab" where
  "spec_collab interact_ok placement_valid =
     \<lparr>switch_ship = (\<lambda>i s. s),
      toggle_building_menu =
        (\<lambda>s. s\<lparr>ui := (ui s)\<lparr>building_menu_open := \<not> building_menu_open (ui s)\<rparr>\<rparr>),
      toggle_ship_inventory =
        (\<lambda>s. s\<lparr>ui := (ui s)\<lparr>ship_inventory_open := \<not> ship_inventory_open (ui s)\<rparr>\<rparr>),
      toggle_building_interaction =
        (\<lambda>b s. s\<lparr>ui := (ui s)\<lparr>building_interaction_open := True\<rparr>\<rparr>),
      interact = (\<lambda>s. (interact_ok, s)),
      handle_mouse_click =
        (\<lambda>pos button s.
           if building_mode (ui s) then
             if placement_valid
             then (True, s\<lparr>ui := (ui s)\<lparr>building_mode := False,
                                         building_type_to_place := None\<rparr>\<rparr>)
             else (False, s)
           else (True, s)),
      handle_mouse_movement = (\<lambda>rel s. s),
      move = (\<lambda>t keys s. s),
      world_update = (\<lambda>t s. s),
      resource_manager_update = (\<lambda>t s. s),
      update_feedback_messages = (\<lambda>t s. s),
      feedback_lifetime = 3,
      num_sub = int_sub,
      num_add = int_add,
      num_pow = int_pow\<rparr>"

text \<open>A collaborator state at the start of a game: the player at \<open>(x, z)\<close> with the given
  nearby objects, the given buildings, every panel closed, no feedback message.\<close>

definition start_sim :: "real \<Rightarrow> real \<Rightarrow> nearby_object list \<Rightarrow> world_object list \<Rightarrow> unit Sim" where
  "start_sim x z nearby bs =
     \<lparr>player = \<lparr>p_x = Fin x, p_z = Fin z, nearby_objects = nearby\<rparr>,
      world = \<lparr>buildings = bs\<rparr>,
      ui = \<lparr>building_menu_open = False, building_mode = False, ship_inventory_open = False,
            building_interaction_open = False, building_type_to_place = None,
            selected_building_type = None, cursor_pos = (0, 0), feedback_messages = []\<rparr>,
      rest = ()\<rparr>"

text \<open>The same state after a building type has been chosen in the building menu:
  placement mode with the pending type \<open>t\<close>.\<close>

definition placing_sim :: "string \<Rightarrow> unit Sim" where
  "placing_sim t =
     (start_sim 0 0 [] [])\<lparr>ui := (ui (start_sim 0 0 [] []))
        \<lparr>building_mode := True, building_type_to_place := Some t,
         selected_building_type := Some t\<rparr>\<rparr>"


subsection \<open>Observations\<close>

text \<open>The mouse is grabbed and hidden exactly in the mode \<open>playing\<close>, and the mode is
  \<open>playing\<close> or \<open>paused\<close>.\<close>

definition capture_inv :: "'h Game \<Rightarrow> bool" where
  "capture_inv g =
     ((game_state g = ''playing'' \<or> game_state g = ''paused'') \<and>
      event_grab g = (game_state g = ''playing'') \<and>
      mouse_visible g = (game_state g \<noteq> ''playing''))"




text \<open>One of the four panel flags that route a mouse click to the interface is set.\<close>

definition panel_active :: "UI \<Rightarrow> bool" where
  "panel_active u =
     (building_menu_open u \<or> building_mode u \<or> ship_inventory_open u \<or>
      building_interaction_open u)"

text \<open>The last statement of the loop body: the cursor position of the interface.\<close>

definition with_cursor :: "int \<times> int \<Rightarrow> 'h Sim \<Rightarrow> 'h Sim" where
  "with_cursor m s = s\<lparr>ui := (ui s)\<lparr>cursor_pos := m\<rparr>\<rparr>"

text \<open>The calls made for one press of the nearby-building-menu key, and the distances of
  the world's buildings from the player as the loop computes them, in the order of
  \<open>world.buildings\<close>.\<close>

definition menu_key_calls :: "'h collab \<Rightarrow> int \<times> int \<Rightarrow> 'h Game \<Rightarrow> call list" where
  "menu_key_calls c m g = new_calls g (handle_event c (KEYDOWN K_b) m g)"

definition building_distances :: "'h collab \<Rightarrow> 'h Game \<Rightarrow> (error + pynum) list" where
  "building_distances c g = map (distance c (player (sim g))) (buildings (world (sim g)))"

text \<open>The panel flags and the placement selection of the interface.\<close>

definition panel_flags :: "UI \<Rightarrow> bool \<times> bool \<times> bool \<times> bool \<times> string option \<times> string option" where
  "panel_flags u =
     (building_menu_open u, building_mode u, ship_inventory_open u,
      building_interaction_open u, building_type_to_place u, selected_building_type u)"

subsection \<open>Concrete games\<close>

text \<open>The game after the building-menu key and then the pause key.\<close>

definition menu_then_pause :: "unit Game" where
  "menu_then_pause =
     handle_events (spec_collab True True)
       [(KEYDOWN K_SPACE, (0, 0)), (KEYDOWN K_ESCAPE, (0, 0))] (init (start_sim 0 0 [] []))"

text \<open>The game after the interact key with nothing nearby and then the pause key: paused,
  with one feedback message in the queue.\<close>

definition paused_with_message :: "unit Game" where
  "paused_with_message =
     handle_events (spec_collab True True)
       [(KEYDOWN K_e, (0, 0)), (KEYDOWN K_ESCAPE, (0, 0))] (init (start_sim 0 0 [] []))"

text \<open>A game with the player at the origin and three buildings, at the distances 50, 5
  and 5; one with a single building at the distance 50; one with a single building at
  the distance 60; one with a single building so far away that the distance overflows.\<close>

definition three_buildings :: "unit Game" where
  "three_buildings =
     init (start_sim 0 0 []
       [\<lparr>o_x = Fin 30, o_z = Fin 40, o_type = MARKT\<rparr>,
        \<lparr>o_x = Fin 3, o_z = Fin 4, o_type = RAFFINERIE\<rparr>,
        \<lparr>o_x = Fin 4, o_z = Fin 3, o_type = MARKT\<rparr>])"

definition building_at_50 :: "unit Game" where
  "building_at_50 =
     init (start_sim 0 0 [] [\<lparr>o_x = Fin 30, o_z = Fin 40, o_type = MARKT\<rparr>])"

definition building_at_60 :: "unit Game" where
  "building_at_60 =
     init (start_sim 0 0 [] [\<lparr>o_x = Fin 60, o_z = Fin 0, o_type = MARKT\<rparr>])"

definition building_out_of_range :: "unit Game" where
  "building_out_of_range =
     init (start_sim 0 0 [] [\<lparr>o_x = Fin (2 ^ 600), o_z = Fin 0, o_type = MARKT\<rparr>])"


section \<open>Properties\<close>

subsection \<open>What the handlers leave alone\<close>

lemma handle_playing_key_frame:
  "game_state (state_of (handle_playing_key c k g)) = game_state g \<and>
   mouse_visible (state_of (handle_playing_key c k g)) = mouse_visible g \<and>
   event_grab (state_of (handle_playing_key c k g)) = event_grab g \<and>
   running (state_of (handle_playing_key c k g)) = running g"
  by (simp add: handle_playing_key_def invoke_def feedback_def interact_feedback_def Let_def
       split: option.split list.split prod.split sum.split)

lemma handle_event_state_of:
  "game_state (handle_event c ev m g) = game_state (state_of (dispatch c ev m g))"
  "mouse_visible (handle_event c ev m g) = mouse_visible (state_of (dispatch c ev m g))"
  "event_grab (handle_event c ev m g) = event_grab (state_of (dispatch c ev m g))"
  by (simp_all add: handle_event_def split: outcome.split)

lemma handle_mousebuttondown_frame:
  "game_state (handle_mousebuttondown c m b g) = game_state g \<and>
   mouse_visible (handle_mousebuttondown c m b g) = mouse_visible g \<and>
   event_grab (handle_mousebuttondown c m b g) = event_grab g"
  by (simp add: handle_mousebuttondown_def invoke_def feedback_def Let_def
       split: option.split list.split prod.split)

lemma update_frame:
  "game_state (update c ms keys g) = game_state g \<and>
   mouse_visible (update c ms keys g) = mouse_visible g \<and>
   event_grab (update c ms keys g) = event_grab g"
  by (simp add: update_def invoke_def Let_def)

lemma handle_event_inv: "capture_inv g \<Longrightarrow> capture_inv (handle_event c ev m g)"
  unfolding capture_inv_def
  by (cases ev)
     (auto simp: handle_event_state_of dispatch_def handle_keydown_def Let_def
        handle_playing_key_frame handle_mousebuttondown_frame invoke_def)

lemma handle_events_inv: "capture_inv g \<Longrightarrow> capture_inv (handle_events c evs g)"
  by (induction evs arbitrary: g) (auto simp: handle_event_inv Let_def)

lemma update_inv: "capture_inv g \<Longrightarrow> capture_inv (update c ms keys g)"
  by (simp add: capture_inv_def update_frame)

lemma run_inv: "capture_inv g \<Longrightarrow> capture_inv (run c inps g)"
  by (induction inps arbitrary: g) (auto simp: frame_def update_inv handle_events_inv Let_def)

lemma init_inv: "capture_inv (init s0)"
  by (simp add: capture_inv_def init_def)

lemma new_calls_append: "calls g' = calls g @ xs \<Longrightarrow> new_calls g g' = xs"
  by (simp add: new_calls_def)

lemma handle_mousebuttondown_calls:
  "calls (handle_mousebuttondown c m b g) =
     (if game_state g = ''playing'' \<and> panel_active (ui (sim g))
      then calls g @ [HANDLE_MOUSE_CLICK m b] else calls g)"
  by (auto simp add: handle_mousebuttondown_def panel_active_def Let_def split: prod.split)

lemma handle_mousebuttondown_sim:
  "sim (handle_mousebuttondown c m b g) =
     (if game_state g = ''playing'' \<and> panel_active (ui (sim g))
      then snd (handle_mouse_click c m b (sim g)) else sim g)"
  by (auto simp add: handle_mousebuttondown_def panel_active_def Let_def split: prod.split)

lemma handle_mousebuttondown_ignored:
  "\<not> (game_state g = ''playing'' \<and> panel_active (ui (sim g))) \<Longrightarrow>
     handle_mousebuttondown c m b g = g"
  by (auto simp add: handle_mousebuttondown_def panel_active_def)




lemmas run_defs = handle_event_def dispatch_def handle_keydown_def handle_playing_key_def
  handle_mousebuttondown_def invoke_def feedback_def add_feedback_message_def
  interact_feedback_def new_calls_def Let_def



lemma click_emits_no_feedback:
  "ADD_FEEDBACK_MESSAGE txt ftype \<notin> set (new_calls g (handle_event c (MOUSEBUTTONDOWN b) m g)) \<and>
   feedback_messages (ui (sim (handle_event c (MOUSEBUTTONDOWN b) m g))) =
     feedback_messages
       (ui (if game_state g = ''playing'' \<and> panel_active (ui (sim g))
            then snd (handle_mouse_click c m b (sim g)) else sim g))"
  by (simp add: new_calls_def handle_event_def dispatch_def handle_mousebuttondown_calls
        handle_mousebuttondown_sim Let_def)

subsection \<open>The outcome of the interact key\<close>



subsection \<open>Game mode and mouse capture\<close>

text \<open>
  Claim C5. From the initial state (mode \<open>playing\<close>, mouse grabbed and hidden), after any
  number of frames and any further events, the mouse is grabbed exactly when the mode is
  \<open>playing\<close> and visible exactly when it is not; in the mode \<open>paused\<close> the mouse is
  released and visible.
\<close>

theorem capture_follows_mode:
  "event_grab (handle_events c evs (run c inps (init s0))) =
     (game_state (handle_events c evs (run c inps (init s0))) = ''playing'') \<and>
   mouse_visible (handle_events c evs (run c inps (init s0))) =
     (game_state (handle_events c evs (run c inps (init s0))) \<noteq> ''playing'') \<and>
   (game_state (handle_events c evs (run c inps (init s0))) = ''paused'' \<longrightarrow>
      \<not> event_grab (handle_events c evs (run c inps (init s0))) \<and>
      mouse_visible (handle_events c evs (run c inps (init s0))))"
  using handle_events_inv [OF run_inv [OF init_inv], of c evs c inps s0]
  by (auto simp: capture_inv_def)

theorem capture_follows_mode_witness:
  "game_state (handle_events (spec_collab True True) [(KEYDOWN K_ESCAPE, (0, 0))]
      (run (spec_collab True True) [] (init (start_sim 0 0 [] [])))) = ''paused'' \<and>
   \<not> event_grab (handle_events (spec_collab True True) [(KEYDOWN K_ESCAPE, (0, 0))]
      (run (spec_collab True True) [] (init (start_sim 0 0 [] [])))) \<and>
   mouse_visible (handle_events (spec_collab True True) [(KEYDOWN K_ESCAPE, (0, 0))]
      (run (spec_collab True True) [] (init (start_sim 0 0 [] []))))"
proof -
  have h: "game_state (handle_events (spec_collab True True) [(KEYDOWN K_ESCAPE, (0, 0))]
      (run (spec_collab True True) [] (init (start_sim 0 0 [] [])))) = ''paused''"
    by (simp add: handle_event_def dispatch_def handle_keydown_def init_def Let_def)
  show ?thesis
    using h capture_follows_mode [of "spec_collab True True" "[(KEYDOWN K_ESCAPE, (0, 0))]"
        "[]" "start_sim 0 0 [] []"]
    by simp
qed

text \<open>
  Claim C6. An event other than the key-down of the escape key leaves the game mode as
  it is, and so does the update of a frame; the escape key turns \<open>playing\<close> into
  \<open>paused\<close> and every other mode into \<open>playing\<close>; every state reached from the initial
  one is in the mode \<open>playing\<close> or \<open>paused\<close>.
\<close>

theorem mode_only_changes_on_escape:
  "(ev \<noteq> KEYDOWN K_ESCAPE \<longrightarrow> game_state (handle_event c ev m g) = game_state g) \<and>
   (game_state g = ''playing'' \<longrightarrow>
      game_state (handle_event c (KEYDOWN K_ESCAPE) m g) = ''paused'') \<and>
   (game_state g \<noteq> ''playing'' \<longrightarrow>
      game_state (handle_event c (KEYDOWN K_ESCAPE) m g) = ''playing'') \<and>
   game_state (update c ms keys g) = game_state g \<and>
   (game_state (handle_events c evs (run c inps (init s0))) = ''playing'' \<or>
    game_state (handle_events c evs (run c inps (init s0))) = ''paused'')"
proof -
  have "ev \<noteq> KEYDOWN K_ESCAPE \<longrightarrow> game_state (handle_event c ev m g) = game_state g"
    by (cases ev)
       (auto simp: handle_event_state_of dispatch_def handle_keydown_def Let_def
          handle_playing_key_frame handle_mousebuttondown_frame invoke_def)
  moreover have "game_state g = ''playing'' \<longrightarrow>
      game_state (handle_event c (KEYDOWN K_ESCAPE) m g) = ''paused''"
    by (simp add: handle_event_state_of dispatch_def handle_keydown_def Let_def)
  moreover have "game_state g \<noteq> ''playing'' \<longrightarrow>
      game_state (handle_event c (KEYDOWN K_ESCAPE) m g) = ''playing''"
    by (simp add: handle_event_state_of dispatch_def handle_keydown_def Let_def
        handle_playing_key_frame)
  moreover have "game_state (update c ms keys g) = game_state g"
    by (simp add: update_frame)
  moreover have "game_state (handle_events c evs (run c inps (init s0))) = ''playing'' \<or>
    game_state (handle_events c evs (run c inps (init s0))) = ''paused''"
    using handle_events_inv [OF run_inv [OF init_inv], of c evs c inps s0]
    by (simp add: capture_inv_def)
  ultimately show ?thesis by blast
qed

theorem mode_only_changes_on_escape_witness:
  "game_state (handle_event (spec_collab True True) (KEYDOWN K_e) (0, 0)
      (init (start_sim 0 0 [] []))) = ''playing'' \<and>
   game_state (handle_event (spec_collab True True) (KEYDOWN K_ESCAPE) (0, 0)
      (init (start_sim 0 0 [] []))) = ''paused'' \<and>
   game_state (handle_event (spec_collab True True) (KEYDOWN K_ESCAPE) (0, 0)
      (handle_event (spec_collab True True) (KEYDOWN K_ESCAPE) (0, 0)
         (init (start_sim 0 0 [] [])))) = ''playing''"
  using mode_only_changes_on_escape [where g = "init (start_sim 0 0 [] [])"
      and c = "spec_collab True True" and ev = "KEYDOWN K_e" and m = "(0, 0)"]
    mode_only_changes_on_escape [where
      g = "handle_event (spec_collab True True) (KEYDOWN K_ESCAPE) (0, 0)
             (init (start_sim 0 0 [] []))"
      and c = "spec_collab True True" and ev = "QUIT" and m = "(0, 0)"]
  by (simp add: init_def)

subsection \<open>Mouse motion\<close>



subsection \<open>The update of a frame\<close>

text \<open>
  Claim C9. When the mode is not \<open>playing\<close>, the update of a frame changes nothing but
  the measured time step \<open>dt\<close>: the player, the world, the resource manager and the
  feedback messages with their lifetimes stay as they are, and no collaborator is called.
\<close>

theorem update_skipped_unless_playing:
  "game_state g \<noteq> ''playing'' \<Longrightarrow>
     update c ms keys g = g\<lparr>dt := real_of_int ms / 1000\<rparr>"
  by (simp add: update_def Let_def)

theorem update_skipped_unless_playing_witness:
  "game_state paused_with_message = ''paused'' \<and>
   map remaining_lifetime (feedback_messages (ui (sim paused_with_message))) = [3] \<and>
   update (spec_collab True True) 16 [] paused_with_message =
     paused_with_message\<lparr>dt := 2 / 125\<rparr>"
proof -
  have h: "game_state paused_with_message = ''paused''"
    by (simp add: paused_with_message_def run_defs init_def start_sim_def spec_collab_def)
  have m: "map remaining_lifetime (feedback_messages (ui (sim paused_with_message))) = [3]"
    by (simp add: paused_with_message_def run_defs init_def start_sim_def spec_collab_def)
  have n: "game_state paused_with_message \<noteq> ''playing''"
    using h by simp
  show ?thesis
    using h m update_skipped_unless_playing [OF n, of "spec_collab True True" 16 "[]"]
    by simp
qed

subsection \<open>Mouse clicks\<close>

text \<open>
  Claim C7, as the code has it. While the mode is \<open>playing\<close> and one of the building
  menu, the placement mode, the ship inventory and the building interaction panel is
  active, a mouse-button-down event is passed to \<open>ui.handle_mouse_click\<close> and to nothing
  else; in every other case (no panel active, or a mode other than \<open>playing\<close>) the event
  is ignored: no call is made and only the cursor position of the interface is set.
\<close>

theorem click_routing:
  "(game_state g = ''playing'' \<and> panel_active (ui (sim g)) \<longrightarrow>
      new_calls g (handle_event c (MOUSEBUTTONDOWN b) m g) = [HANDLE_MOUSE_CLICK m b] \<and>
      sim (handle_event c (MOUSEBUTTONDOWN b) m g) =
        with_cursor m (snd (handle_mouse_click c m b (sim g)))) \<and>
   (\<not> (game_state g = ''playing'' \<and> panel_active (ui (sim g))) \<longrightarrow>
      new_calls g (handle_event c (MOUSEBUTTONDOWN b) m g) = [] \<and>
      handle_event c (MOUSEBUTTONDOWN b) m g = g\<lparr>sim := with_cursor m (sim g)\<rparr>)"
proof (intro conjI impI)
  assume a: "game_state g = ''playing'' \<and> panel_active (ui (sim g))"
  show "new_calls g (handle_event c (MOUSEBUTTONDOWN b) m g) = [HANDLE_MOUSE_CLICK m b]"
    using a
    by (intro new_calls_append)
       (simp add: handle_event_def dispatch_def handle_mousebuttondown_calls Let_def)
  show "sim (handle_event c (MOUSEBUTTONDOWN b) m g) =
        with_cursor m (snd (handle_mouse_click c m b (sim g)))"
    using a
    by (simp add: handle_event_def dispatch_def handle_mousebuttondown_sim with_cursor_def
        Let_def)
next
  assume a: "\<not> (game_state g = ''playing'' \<and> panel_active (ui (sim g)))"
  show "new_calls g (handle_event c (MOUSEBUTTONDOWN b) m g) = []"
    using a
    by (intro new_calls_append)
       (simp add: handle_event_def dispatch_def handle_mousebuttondown_calls Let_def)
  show "handle_event c (MOUSEBUTTONDOWN b) m g = g\<lparr>sim := with_cursor m (sim g)\<rparr>"
    using handle_mousebuttondown_ignored [OF a, of c m b]
    by (simp add: handle_event_def dispatch_def with_cursor_def Let_def)
qed

theorem click_routing_witness:
  "new_calls (handle_event (spec_collab True True) (KEYDOWN K_SPACE) (0, 0)
                (init (start_sim 0 0 [] [])))
     (handle_event (spec_collab True True) (MOUSEBUTTONDOWN 1) (5, 5)
        (handle_event (spec_collab True True) (KEYDOWN K_SPACE) (0, 0)
           (init (start_sim 0 0 [] [])))) = [HANDLE_MOUSE_CLICK (5, 5) 1] \<and>
   new_calls (init (start_sim 0 0 [] []))
     (handle_event (spec_collab True True) (MOUSEBUTTONDOWN 1) (5, 5)
        (init (start_sim 0 0 [] []))) = []"
proof -
  have a: "game_state (handle_event (spec_collab True True) (KEYDOWN K_SPACE) (0, 0)
              (init (start_sim 0 0 [] []))) = ''playing'' \<and>
           panel_active (ui (sim (handle_event (spec_collab True True) (KEYDOWN K_SPACE) (0, 0)
              (init (start_sim 0 0 [] [])))))"
    by (simp add: run_defs init_def start_sim_def spec_collab_def panel_active_def)
  have b: "\<not> (game_state (init (start_sim 0 0 [] [])) = ''playing'' \<and>
              panel_active (ui (sim (init (start_sim 0 0 [] [])))))"
    by (simp add: init_def start_sim_def panel_active_def)
  show ?thesis
    using a b
      click_routing [where g = "handle_event (spec_collab True True) (KEYDOWN K_SPACE) (0, 0)
          (init (start_sim 0 0 [] []))" and c = "spec_collab True True" and b = 1
          and m = "(5, 5)"]
      click_routing [where g = "init (start_sim 0 0 [] [])" and c = "spec_collab True True"
          and b = 1 and m = "(5, 5)"]
    by (simp add: new_calls_def)
qed

text \<open>
  Claim C7 as it is stated fails while the game is paused: after the building-menu key
  and the pause key the building menu is open, and a click is not passed to the
  interface.
\<close>

theorem click_while_paused_counterexample:
  "building_menu_open (ui (sim menu_then_pause)) \<and>
   new_calls menu_then_pause
     (handle_event (spec_collab True True) (MOUSEBUTTONDOWN 1) (5, 5) menu_then_pause) = []"
  by (simp add: menu_then_pause_def run_defs init_def start_sim_def spec_collab_def)

subsection \<open>Placement clicks\<close>

text \<open>
  Claim C2 says that a failed placement click leaves the placement mode on, keeps the
  pending building type and emits the error message "Gebaeude kann hier nicht platziert
  werden". In the loop the branch with that message lies under the test
  \<open>clicked_result and self.ui.building_mode\<close> and is guarded by \<open>not clicked_result\<close>,
  so it is never taken. At a click in placement mode for "Raffinerie" that the interface
  rejects, the placement mode and the pending type stay, the only call is
  \<open>handle_mouse_click\<close>, and the feedback queue stays empty.
\<close>

theorem failed_placement_emits_nothing:
  "building_mode (ui (sim (handle_event (spec_collab True False) (MOUSEBUTTONDOWN 1) (5, 5)
      (init (placing_sim ''Raffinerie''))))) \<and>
   building_type_to_place (ui (sim (handle_event (spec_collab True False) (MOUSEBUTTONDOWN 1)
      (5, 5) (init (placing_sim ''Raffinerie''))))) = Some ''Raffinerie'' \<and>
   new_calls (init (placing_sim ''Raffinerie''))
     (handle_event (spec_collab True False) (MOUSEBUTTONDOWN 1) (5, 5)
        (init (placing_sim ''Raffinerie''))) = [HANDLE_MOUSE_CLICK (5, 5) 1] \<and>
   feedback_messages (ui (sim (handle_event (spec_collab True False) (MOUSEBUTTONDOWN 1) (5, 5)
      (init (placing_sim ''Raffinerie''))))) = []"
  by (simp add: run_defs init_def placing_sim_def start_sim_def spec_collab_def)

text \<open>
  Claim C3 says that a successful placement click leaves the placement mode and emits a
  success message that names the placed type. In the loop the branch with that message
  tests \<open>not self.ui.building_mode\<close> under the test \<open>clicked_result and
  self.ui.building_mode\<close>, so it is never taken. At a click in placement mode for
  "Raffinerie" that the interface accepts, both placement flags are cleared by the
  interface, the only call is \<open>handle_mouse_click\<close>, the feedback queue stays empty and
  \<open>selected_building_type\<close> is not reset.
\<close>

theorem successful_placement_emits_nothing:
  "\<not> building_mode (ui (sim (handle_event (spec_collab True True) (MOUSEBUTTONDOWN 1) (5, 5)
      (init (placing_sim ''Raffinerie''))))) \<and>
   building_type_to_place (ui (sim (handle_event (spec_collab True True) (MOUSEBUTTONDOWN 1)
      (5, 5) (init (placing_sim ''Raffinerie''))))) = None \<and>
   new_calls (init (placing_sim ''Raffinerie''))
     (handle_event (spec_collab True True) (MOUSEBUTTONDOWN 1) (5, 5)
        (init (placing_sim ''Raffinerie''))) = [HANDLE_MOUSE_CLICK (5, 5) 1] \<and>
   feedback_messages (ui (sim (handle_event (spec_collab True True) (MOUSEBUTTONDOWN 1) (5, 5)
      (init (placing_sim ''Raffinerie''))))) = [] \<and>
   selected_building_type (ui (sim (handle_event (spec_collab True True) (MOUSEBUTTONDOWN 1)
      (5, 5) (init (placing_sim ''Raffinerie''))))) = Some ''Raffinerie''"
  by (simp add: run_defs init_def placing_sim_def start_sim_def spec_collab_def)

subsection \<open>The order of the calls at the interact key\<close>



subsection \<open>The scan for the nearest building\<close>

lemma num_lt_trans: "num_lt a b \<Longrightarrow> num_lt b c \<Longrightarrow> num_lt a c"
  by (cases a; cases b; cases c) simp_all

lemma num_le_lt_trans: "num_le a b \<Longrightarrow> num_lt b c \<Longrightarrow> num_lt a c"
  by (cases a; cases b; cases c) simp_all

lemma num_lt_irrefl: "\<not> num_lt a a"
  by (cases a) simp_all

lemma num_lt_imp_le: "num_lt a b \<Longrightarrow> num_le a b"
  by (cases a; cases b) simp_all

lemma num_lt_50_PInf: "num_lt d (Fin 50) \<Longrightarrow> num_lt d PInf"
  by (cases d) simp_all

lemma scan_append:
  "scan c p (xs @ ys) acc =
     (case scan c p xs acc of Inl e \<Rightarrow> Inl e | Inr acc' \<Rightarrow> scan c p ys acc')"
  by (induction xs arbitrary: acc) (simp_all split: sum.split)

lemma scan_snoc:
  "scan c p (xs @ [x]) acc = Inr acc' \<Longrightarrow>
   \<exists>acc0 d. scan c p xs acc = Inr acc0 \<and> distance c p x = Inr d \<and>
     acc' = (if num_lt d (snd acc0) \<and> num_lt d (Fin 50) then (Some x, d) else acc0)"
  by (auto simp: scan_append split: sum.splits)

text \<open>The state of the scan after the buildings \<open>bs\<close>, when no distance has raised:
  \<open>ds\<close> are the distances computed.\<close>

lemma scan_invariant:
  "scan c p bs (None, PInf) = Inr acc \<Longrightarrow>
   \<exists>ds. map (distance c p) bs = map Inr ds \<and>
     ((acc = (None, PInf) \<and> (\<forall>j<length bs. \<not> num_lt (ds ! j) (Fin 50))) \<or>
      (\<exists>i<length bs.
         acc = (Some (bs ! i), ds ! i) \<and> num_lt (ds ! i) (Fin 50) \<and>
         (\<forall>j<length bs. \<not> num_lt (ds ! j) (ds ! i)) \<and>
         (\<forall>j<i. \<not> num_le (ds ! j) (ds ! i))))"
proof (induction bs arbitrary: acc rule: rev_induct)
  case Nil
  then show ?case by simp
next
  case (snoc x xs)
  from scan_snoc [OF snoc.prems]
  obtain acc0 d where acc0: "scan c p xs (None, PInf) = Inr acc0"
    and d: "distance c p x = Inr d"
    and acc: "acc = (if num_lt d (snd acc0) \<and> num_lt d (Fin 50) then (Some x, d) else acc0)"
    by blast
  from snoc.IH [OF acc0]
  obtain ds where ds: "map (distance c p) xs = map Inr ds"
    and inv: "(acc0 = (None, PInf) \<and> (\<forall>j<length xs. \<not> num_lt (ds ! j) (Fin 50))) \<or>
      (\<exists>i<length xs.
         acc0 = (Some (xs ! i), ds ! i) \<and> num_lt (ds ! i) (Fin 50) \<and>
         (\<forall>j<length xs. \<not> num_lt (ds ! j) (ds ! i)) \<and>
         (\<forall>j<i. \<not> num_le (ds ! j) (ds ! i)))"
    by blast
  have len: "length ds = length xs"
    using ds by (metis length_map)
  let ?ds = "ds @ [d]"
  have map: "map (distance c p) (xs @ [x]) = map Inr ?ds"
    using ds d by simp
  have last: "?ds ! length xs = d"
    using len by (simp add: nth_append)
  have old: "\<And>j. j < length xs \<Longrightarrow> ?ds ! j = ds ! j"
    using len by (simp add: nth_append)
  have oldb: "\<And>j. j < length xs \<Longrightarrow> (xs @ [x]) ! j = xs ! j"
    by (simp add: nth_append)
  from inv have
    "(acc = (None, PInf) \<and> (\<forall>j<length (xs @ [x]). \<not> num_lt (?ds ! j) (Fin 50))) \<or>
     (\<exists>i<length (xs @ [x]).
        acc = (Some ((xs @ [x]) ! i), ?ds ! i) \<and> num_lt (?ds ! i) (Fin 50) \<and>
        (\<forall>j<length (xs @ [x]). \<not> num_lt (?ds ! j) (?ds ! i)) \<and>
        (\<forall>j<i. \<not> num_le (?ds ! j) (?ds ! i)))"
  proof (elim disjE conjE exE)
    assume none: "acc0 = (None, PInf)" and far: "\<forall>j<length xs. \<not> num_lt (ds ! j) (Fin 50)"
    show ?thesis
    proof (cases "num_lt d (Fin 50)")
      case True
      have a: "acc = (Some ((xs @ [x]) ! length xs), ?ds ! length xs)"
        using acc none True num_lt_50_PInf [OF True] by (simp add: last)
      have b: "\<forall>j<length (xs @ [x]). \<not> num_lt (?ds ! j) (?ds ! length xs)"
      proof (intro allI impI)
        fix j assume "j < length (xs @ [x])"
        then consider "j < length xs" | "j = length xs" by fastforce
        then show "\<not> num_lt (?ds ! j) (?ds ! length xs)"
        proof cases
          case 1
          then show ?thesis
            using far True num_lt_trans [of "ds ! j" d "Fin 50"] by (auto simp: last old)
        next
          case 2
          then show ?thesis by (simp add: last num_lt_irrefl)
        qed
      qed
      have c: "\<forall>j<length xs. \<not> num_le (?ds ! j) (?ds ! length xs)"
        using far True num_le_lt_trans [of _ d "Fin 50"] by (auto simp: last old)
      show ?thesis
        using a b c True by (intro disjI2 exI [of _ "length xs"]) (simp add: last)
    next
      case False
      have "acc = (None, PInf)" using acc none False by simp
      moreover have "\<forall>j<length (xs @ [x]). \<not> num_lt (?ds ! j) (Fin 50)"
        using far False len by (auto simp: nth_append less_Suc_eq)
      ultimately show ?thesis by blast
    qed
  next
    fix i
    assume i: "i < length xs"
      and acc0i: "acc0 = (Some (xs ! i), ds ! i)"
      and near: "num_lt (ds ! i) (Fin 50)"
      and least: "\<forall>j<length xs. \<not> num_lt (ds ! j) (ds ! i)"
      and first: "\<forall>j<i. \<not> num_le (ds ! j) (ds ! i)"
    show ?thesis
    proof (cases "num_lt d (ds ! i)")
      case True
      have d50: "num_lt d (Fin 50)"
        using True near by (rule num_lt_trans)
      have a: "acc = (Some ((xs @ [x]) ! length xs), ?ds ! length xs)"
        using acc acc0i True d50 by (simp add: last)
      have b: "\<forall>j<length (xs @ [x]). \<not> num_lt (?ds ! j) (?ds ! length xs)"
      proof (intro allI impI)
        fix j assume "j < length (xs @ [x])"
        then consider "j < length xs" | "j = length xs" by fastforce
        then show "\<not> num_lt (?ds ! j) (?ds ! length xs)"
        proof cases
          case 1
          then show ?thesis
            using least True num_lt_trans [of "ds ! j" d "ds ! i"] by (auto simp: last old)
        next
          case 2
          then show ?thesis by (simp add: last num_lt_irrefl)
        qed
      qed
      have c: "\<forall>j<length xs. \<not> num_le (?ds ! j) (?ds ! length xs)"
        using least True num_le_lt_trans [of _ d "ds ! i"] by (auto simp: last old)
      show ?thesis
        using a b c d50 by (intro disjI2 exI [of _ "length xs"]) (simp add: last)
    next
      case False
      have a: "acc = (Some ((xs @ [x]) ! i), ?ds ! i)"
        using acc acc0i False i by (simp add: old oldb)
      have b: "\<forall>j<length (xs @ [x]). \<not> num_lt (?ds ! j) (?ds ! i)"
      proof (intro allI impI)
        fix j assume "j < length (xs @ [x])"
        then consider "j < length xs" | "j = length xs" by fastforce
        then show "\<not> num_lt (?ds ! j) (?ds ! i)"
        proof cases
          case 1
          then show ?thesis using least i by (simp add: old)
        next
          case 2
          then show ?thesis using False i by (simp add: last old)
        qed
      qed
      have c: "\<forall>j<i. \<not> num_le (?ds ! j) (?ds ! i)"
        using first i by (simp add: old)
      show ?thesis
        using a b c near i by (intro disjI2 exI [of _ i]) (simp add: old)
    qed
  qed
  with map show ?case by blast
qed


lemma scan_no_raise:
  "map (distance c p) bs = map Inr ds \<Longrightarrow> \<exists>acc'. scan c p bs acc = Inr acc'"
proof (induction bs arbitrary: acc ds)
  case Nil
  then show ?case by simp
next
  case (Cons b bs)
  then obtain d ds' where "ds = d # ds'" "distance c p b = Inr d"
    "map (distance c p) bs = map Inr ds'"
    by (cases ds) auto
  with Cons.IH show ?case by simp
qed

lemma nearest_building_cases:
  assumes "map (distance c p) bs = map Inr ds"
  shows "(nearest_building c p bs = Inr None \<and> (\<forall>j<length bs. \<not> num_lt (ds ! j) (Fin 50))) \<or>
   (\<exists>i<length bs.
      nearest_building c p bs = Inr (Some (bs ! i)) \<and> num_lt (ds ! i) (Fin 50) \<and>
      (\<forall>j<length bs. \<not> num_lt (ds ! j) (ds ! i)) \<and>
      (\<forall>j<i. \<not> num_le (ds ! j) (ds ! i)))"
proof -
  from scan_no_raise [OF assms]
  obtain acc where acc: "scan c p bs (None, PInf) = Inr acc" by blast
  from scan_invariant [OF acc]
  obtain ds' where ds': "map (distance c p) bs = map Inr ds'"
    and inv: "(acc = (None, PInf) \<and> (\<forall>j<length bs. \<not> num_lt (ds' ! j) (Fin 50))) \<or>
      (\<exists>i<length bs.
         acc = (Some (bs ! i), ds' ! i) \<and> num_lt (ds' ! i) (Fin 50) \<and>
         (\<forall>j<length bs. \<not> num_lt (ds' ! j) (ds' ! i)) \<and>
         (\<forall>j<i. \<not> num_le (ds' ! j) (ds' ! i)))"
    by blast
  have "map Inr ds' = (map Inr ds :: (error + pynum) list)"
    using ds' assms by simp
  then have same: "ds' = ds"
    by (simp add: inj_map_eq_map)
  from inv show ?thesis
  proof (elim disjE conjE exE)
    assume "acc = (None, PInf)" and "\<forall>j<length bs. \<not> num_lt (ds' ! j) (Fin 50)"
    then show ?thesis
      using acc same by (simp add: nearest_building_def)
  next
    fix i
    assume i: "i < length bs" and a: "acc = (Some (bs ! i), ds' ! i)"
      and r: "num_lt (ds' ! i) (Fin 50)" "\<forall>j<length bs. \<not> num_lt (ds' ! j) (ds' ! i)"
        "\<forall>j<i. \<not> num_le (ds' ! j) (ds' ! i)"
    have "nearest_building c p bs = Inr (Some (bs ! i))"
      using acc a by (simp add: nearest_building_def)
    with i r same show ?thesis by (intro disjI2 exI [of _ i]) simp
  qed
qed

lemma menu_key_hit:
  assumes "game_state g = ''playing''"
    and "nearest_building c (player (sim g)) (buildings (world (sim g))) = Inr (Some b)"
  shows "menu_key_calls c m g = [TOGGLE_BUILDING_INTERACTION b]"
    and "sim (handle_event c (KEYDOWN K_b) m g) =
           with_cursor m (toggle_building_interaction c b (sim g))"
  using assms
  by (simp_all add: menu_key_calls_def new_calls_def handle_event_def dispatch_def
        handle_keydown_def handle_playing_key_def invoke_def with_cursor_def Let_def)

lemma menu_key_miss:
  assumes "game_state g = ''playing''"
    and "nearest_building c (player (sim g)) (buildings (world (sim g))) = Inr None"
  shows "menu_key_calls c m g =
           [ADD_FEEDBACK_MESSAGE (''Kein Geb'' @ ae # ''ude in der N'' @ ae # ''he'') ''warning'']"
    and "sim (handle_event c (KEYDOWN K_b) m g) =
           with_cursor m
             (add_feedback_message c (''Kein Geb'' @ ae # ''ude in der N'' @ ae # ''he'')
                ''warning'' (sim g))"
  using assms
  by (simp_all add: menu_key_calls_def new_calls_def handle_event_def dispatch_def
        handle_keydown_def handle_playing_key_def feedback_def with_cursor_def Let_def)

text \<open>When the arithmetic raises, the exception leaves the loop: no call is made and
  line 167 is not reached.\<close>

lemma menu_key_raise:
  assumes "game_state g = ''playing''"
    and "nearest_building c (player (sim g)) (buildings (world (sim g))) = Inl e"
  shows "handle_event c (KEYDOWN K_b) m g = g\<lparr>raised := Some e\<rparr>"
  using assms
  by (simp add: handle_event_def dispatch_def handle_keydown_def handle_playing_key_def
        Let_def)

lemma panel_flags_feedback:
  "panel_flags (ui (with_cursor m (add_feedback_message c txt ftype s))) = panel_flags (ui s)"
  by (simp add: panel_flags_def with_cursor_def add_feedback_message_def)

text \<open>What the nearby-building-menu key does while the mode is \<open>playing\<close> and no distance
  raises, \<open>ds\<close> being the distances computed: if some distance is below 50,
  \<open>ui.toggle_building_interaction\<close> is called with a building whose distance is below 50,
  no building being nearer and no building before it in \<open>world.buildings\<close> being as near;
  if no distance is below 50, the only call is the warning, which is appended to the
  feedback queue, and the panel flags and the placement selection stay as they are.\<close>

lemma menu_key_scan:
  assumes "game_state g = ''playing''"
    and "building_distances c g = map Inr ds"
  shows
   "((\<exists>d\<in>set ds. num_lt d (Fin 50)) \<longrightarrow>
       (\<exists>i<length ds.
          num_lt (ds ! i) (Fin 50) \<and>
          (\<forall>j<length ds. \<not> num_lt (ds ! j) (ds ! i)) \<and>
          (\<forall>j<i. \<not> num_le (ds ! j) (ds ! i)) \<and>
          menu_key_calls c m g =
            [TOGGLE_BUILDING_INTERACTION (buildings (world (sim g)) ! i)] \<and>
          sim (handle_event c (KEYDOWN K_b) m g) =
            with_cursor m
              (toggle_building_interaction c (buildings (world (sim g)) ! i) (sim g)))) \<and>
    ((\<forall>d\<in>set ds. \<not> num_lt d (Fin 50)) \<longrightarrow>
       menu_key_calls c m g =
         [ADD_FEEDBACK_MESSAGE (''Kein Geb'' @ ae # ''ude in der N'' @ ae # ''he'') ''warning''] \<and>
       panel_flags (ui (sim (handle_event c (KEYDOWN K_b) m g))) = panel_flags (ui (sim g)) \<and>
       feedback_messages (ui (sim (handle_event c (KEYDOWN K_b) m g))) =
         feedback_messages (ui (sim g)) @
           [\<lparr>msg_text = ''Kein Geb'' @ ae # ''ude in der N'' @ ae # ''he'',
             feedback_type = ''warning'', remaining_lifetime = feedback_lifetime c\<rparr>])"
proof -
  let ?p = "player (sim g)" and ?bs = "buildings (world (sim g))"
  have dist: "map (distance c ?p) ?bs = map Inr ds"
    using assms(2) by (simp add: building_distances_def)
  have len: "length ds = length ?bs"
    using dist by (metis length_map)
  note cases = nearest_building_cases [OF dist]
  show ?thesis
  proof (intro conjI impI)
    assume "\<exists>d\<in>set ds. num_lt d (Fin 50)"
    then obtain k where k: "k < length ?bs" "num_lt (ds ! k) (Fin 50)"
      using len by (auto simp: in_set_conv_nth)
    with cases
    obtain i where i: "i < length ?bs" "nearest_building c ?p ?bs = Inr (Some (?bs ! i))"
      "num_lt (ds ! i) (Fin 50)"
      "\<forall>j<length ?bs. \<not> num_lt (ds ! j) (ds ! i)"
      "\<forall>j<i. \<not> num_le (ds ! j) (ds ! i)"
      by blast
    show "\<exists>i<length ds.
          num_lt (ds ! i) (Fin 50) \<and>
          (\<forall>j<length ds. \<not> num_lt (ds ! j) (ds ! i)) \<and>
          (\<forall>j<i. \<not> num_le (ds ! j) (ds ! i)) \<and>
          menu_key_calls c m g =
            [TOGGLE_BUILDING_INTERACTION (buildings (world (sim g)) ! i)] \<and>
          sim (handle_event c (KEYDOWN K_b) m g) =
            with_cursor m
              (toggle_building_interaction c (buildings (world (sim g)) ! i) (sim g))"
      using menu_key_hit [OF assms(1) i(2), of m] i len
      by (intro exI [of _ i]) simp
  next
    assume far: "\<forall>d\<in>set ds. \<not> num_lt d (Fin 50)"
    have "\<not> num_lt (ds ! j) (Fin 50)" if "j < length ?bs" for j
      using far that len by simp
    with cases have none: "nearest_building c ?p ?bs = Inr None" by blast
    note miss = menu_key_miss [OF assms(1) none, of m]
    show "menu_key_calls c m g =
         [ADD_FEEDBACK_MESSAGE (''Kein Geb'' @ ae # ''ude in der N'' @ ae # ''he'') ''warning'']"
      by (rule miss(1))
    show "panel_flags (ui (sim (handle_event c (KEYDOWN K_b) m g))) = panel_flags (ui (sim g))"
      by (simp only: miss(2) panel_flags_feedback)
    show "feedback_messages (ui (sim (handle_event c (KEYDOWN K_b) m g))) =
         feedback_messages (ui (sim g)) @
           [\<lparr>msg_text = ''Kein Geb'' @ ae # ''ude in der N'' @ ae # ''he'',
             feedback_type = ''warning'', remaining_lifetime = feedback_lifetime c\<rparr>]"
      by (simp add: miss(2) with_cursor_def add_feedback_message_def)
  qed
qed

lemma sqrt_2500: "sqrt 2500 = 50"
  by (rule real_sqrt_unique) simp_all

lemma sqrt_25: "sqrt 25 = 5"
  by (rule real_sqrt_unique) simp_all

lemma sqrt_3600: "sqrt 3600 = 60"
  by (rule real_sqrt_unique) simp_all

text \<open>The distance that the arithmetic of \<open>spec_collab\<close> computes for integer
  coordinates.\<close>

lemma int_distance:
  assumes "p_x p = Fin px" "p_z p = Fin pz" "o_x b = Fin bx" "o_z b = Fin bz"
    and "px \<in> \<int>" "pz \<in> \<int>" "bx \<in> \<int>" "bz \<in> \<int>"
  shows "distance (spec_collab u v) p b =
     (if 2 ^ 1024 - 2 ^ 970 \<le> (px - bx)\<^sup>2 + (pz - bz)\<^sup>2 then Inl OverflowError
      else Inr (Fin (sqrt ((px - bx)\<^sup>2 + (pz - bz)\<^sup>2))))"
proof -
  have "\<not> (px - bx)\<^sup>2 + (pz - bz)\<^sup>2 < 0"
    by (simp add: not_less)
  moreover have "px - bx \<in> \<int>" "pz - bz \<in> \<int>"
    using assms by simp_all
  moreover from this have "(px - bx)\<^sup>2 \<in> \<int>" "(pz - bz)\<^sup>2 \<in> \<int>"
    by simp_all
  moreover from this have "(px - bx)\<^sup>2 + (pz - bz)\<^sup>2 \<in> \<int>"
    by simp
  ultimately show ?thesis
    using assms
    by (simp add: distance_def spec_collab_def int_sub_def int_add_def int_pow_def)
qed

lemma distances_three_buildings:
  "building_distances (spec_collab u v) three_buildings =
     [Inr (Fin 50), Inr (Fin 5), Inr (Fin 5)]"
  by (simp add: building_distances_def three_buildings_def init_def start_sim_def
        int_distance sqrt_2500 sqrt_25)

lemma distances_building_at_50:
  "building_distances (spec_collab u v) building_at_50 = [Inr (Fin 50)]"
  by (simp add: building_distances_def building_at_50_def init_def start_sim_def
        int_distance sqrt_2500)

lemma distances_building_at_60:
  "building_distances (spec_collab u v) building_at_60 = [Inr (Fin 60)]"
  by (simp add: building_distances_def building_at_60_def init_def start_sim_def
        int_distance sqrt_3600)

lemma distances_building_out_of_range:
  "building_distances (spec_collab u v) building_out_of_range = [Inl OverflowError]"
  by (simp add: building_distances_def building_out_of_range_def init_def start_sim_def
        int_distance)

text \<open>
  Claim C4 says that the nearby-building-menu key opens the building interaction panel,
  bound to the nearest building, whenever some building lies within the radius of 50,
  the bound building being at a distance of at most 50. The comment of line 90 gives the
  radius as "Max 50 Einheiten Entfernung", but the test of that line is
  \<open>distance < 50\<close>: a building at exactly the distance 50 is not found. With the player
  at (0, 0) and a single building at (30, 40) the loop computes the distance 50, the only
  call is the warning "Kein Gebaeude in der Naehe", the interaction panel stays closed,
  and no exception is raised.
\<close>

theorem building_at_50_not_found:
  "building_distances (spec_collab True True) building_at_50 = [Inr (Fin 50)] \<and>
   menu_key_calls (spec_collab True True) (0, 0) building_at_50 =
     [ADD_FEEDBACK_MESSAGE (''Kein Geb'' @ ae # ''ude in der N'' @ ae # ''he'') ''warning''] \<and>
   \<not> building_interaction_open
        (ui (sim (handle_event (spec_collab True True) (KEYDOWN K_b) (0, 0) building_at_50))) \<and>
   raised (handle_event (spec_collab True True) (KEYDOWN K_b) (0, 0) building_at_50) = None"
proof -
  have d: "distance (spec_collab True True) (player (sim building_at_50))
             \<lparr>o_x = Fin 30, o_z = Fin 40, o_type = MARKT\<rparr> = Inr (Fin 50)"
    by (simp add: building_at_50_def init_def start_sim_def int_distance sqrt_2500)
  have n: "nearest_building (spec_collab True True) (player (sim building_at_50))
             (buildings (world (sim building_at_50))) = Inr None"
    using d by (simp add: nearest_building_def building_at_50_def init_def start_sim_def)
  have p: "game_state building_at_50 = ''playing''"
    by (simp add: building_at_50_def init_def)
  note miss = menu_key_miss [OF p n, of "(0, 0)"]
  have closed: "\<not> building_interaction_open
        (ui (sim (handle_event (spec_collab True True) (KEYDOWN K_b) (0, 0) building_at_50)))"
    unfolding miss(2)
    by (simp add: with_cursor_def add_feedback_message_def building_at_50_def
        init_def start_sim_def)
  have r: "raised (handle_event (spec_collab True True) (KEYDOWN K_b) (0, 0) building_at_50) =
      None"
  proof -
    have "raised (handle_event (spec_collab True True) (KEYDOWN K_b) (0, 0) building_at_50) =
        raised building_at_50"
      using p n
      by (simp add: handle_event_def dispatch_def handle_keydown_def handle_playing_key_def
          feedback_def Let_def)
    then show ?thesis by (simp add: building_at_50_def init_def)
  qed
  show ?thesis
    using distances_building_at_50 miss(1) closed r by simp
qed

text \<open>Three runs of the key: the nearer of the buildings is taken, the first of two at
  the same distance; a building at the distance 60 is not found; a distance that
  overflows ends the loop with the exception, and no call is made.\<close>

lemma menu_key_examples:
  "menu_key_calls (spec_collab True True) (0, 0) three_buildings =
     [TOGGLE_BUILDING_INTERACTION \<lparr>o_x = Fin 3, o_z = Fin 4, o_type = RAFFINERIE\<rparr>]"
  "menu_key_calls (spec_collab True True) (0, 0) building_at_60 =
     [ADD_FEEDBACK_MESSAGE (''Kein Geb'' @ ae # ''ude in der N'' @ ae # ''he'') ''warning'']"
  "handle_event (spec_collab True True) (KEYDOWN K_b) (0, 0) building_out_of_range =
     building_out_of_range\<lparr>raised := Some OverflowError\<rparr>"
proof -
  have p3: "game_state three_buildings = ''playing''"
    by (simp add: three_buildings_def init_def)
  have d3: "map (distance (spec_collab True True) (player (sim three_buildings)))
              (buildings (world (sim three_buildings))) =
            [Inr (Fin 50), Inr (Fin 5), Inr (Fin 5)]"
    using distances_three_buildings [of True True] by (simp add: building_distances_def)
  have n3: "nearest_building (spec_collab True True) (player (sim three_buildings))
             (buildings (world (sim three_buildings))) =
            Inr (Some \<lparr>o_x = Fin 3, o_z = Fin 4, o_type = RAFFINERIE\<rparr>)"
    using d3 by (simp add: nearest_building_def three_buildings_def init_def start_sim_def)
  show "menu_key_calls (spec_collab True True) (0, 0) three_buildings =
     [TOGGLE_BUILDING_INTERACTION \<lparr>o_x = Fin 3, o_z = Fin 4, o_type = RAFFINERIE\<rparr>]"
    by (rule menu_key_hit(1) [OF p3 n3])
  have p1: "game_state building_at_60 = ''playing''"
    by (simp add: building_at_60_def init_def)
  have d1: "map (distance (spec_collab True True) (player (sim building_at_60)))
              (buildings (world (sim building_at_60))) = [Inr (Fin 60)]"
    using distances_building_at_60 [of True True] by (simp add: building_distances_def)
  have n1: "nearest_building (spec_collab True True) (player (sim building_at_60))
             (buildings (world (sim building_at_60))) = Inr None"
    using d1 by (simp add: nearest_building_def building_at_60_def init_def start_sim_def)
  show "menu_key_calls (spec_collab True True) (0, 0) building_at_60 =
     [ADD_FEEDBACK_MESSAGE (''Kein Geb'' @ ae # ''ude in der N'' @ ae # ''he'') ''warning'']"
    by (rule menu_key_miss(1) [OF p1 n1])
  have p0: "game_state building_out_of_range = ''playing''"
    by (simp add: building_out_of_range_def init_def)
  have d0: "map (distance (spec_collab True True) (player (sim building_out_of_range)))
              (buildings (world (sim building_out_of_range))) = [Inl OverflowError]"
    using distances_building_out_of_range [of True True] by (simp add: building_distances_def)
  have n0: "nearest_building (spec_collab True True) (player (sim building_out_of_range))
             (buildings (world (sim building_out_of_range))) = Inl OverflowError"
    using d0
    by (simp add: nearest_building_def building_out_of_range_def init_def start_sim_def)
  show "handle_event (spec_collab True True) (KEYDOWN K_b) (0, 0) building_out_of_range =
     building_out_of_range\<lparr>raised := Some OverflowError\<rparr>"
    by (rule menu_key_raise [OF p0 n0])
qed

end
